theory Spec2Isabelle
  imports Complex_Main
begin

section \<open>The Huber atom of cvxpy (cvxpy/atoms/elementwise/huber.py)\<close>

text \<open>
  The class \<open>huber\<close> is an elementwise atom with one argument \<open>x\<close> and one bound datum
  \<open>M\<close>. Numbers are modelled as reals (the idealisation of the floating-point values),
  a tensor as the list of its elements, exceptions as the left values of a sum.
\<close>

subsection \<open>Python values and exceptions\<close>

datatype py_error = ValueError string | IndexError | TypeError

text \<open>A float of numpy: a real, or the value \<open>inf\<close> that \<open>scipy.special.huber\<close> returns
  for a negative threshold.\<close>

datatype npfloat = Finite real | PosInf

fun np_double :: "npfloat \<Rightarrow> npfloat" where
  "np_double (Finite r) = Finite (2 * r)"
| "np_double PosInf = PosInf"

text \<open>
  \<open>scipy.special.huber(delta, r)\<close> belongs to SciPy, not to the repository. Its documented
  value: \<open>inf\<close> if \<open>delta < 0\<close>; \<open>r\<^sup>2 / 2\<close> if \<open>0 \<le> delta\<close> and \<open>|r| \<le> delta\<close>;
  \<open>delta * (|r| - delta / 2)\<close> otherwise.
\<close>

definition scipy_huber :: "real \<Rightarrow> real \<Rightarrow> npfloat" where
  "scipy_huber delta r =
     (if delta < 0 then PosInf
      else if \<bar>r\<bar> \<le> delta then Finite (r\<^sup>2 / 2)
      else Finite (delta * (\<bar>r\<bar> - delta / 2)))"

subsection \<open>Expressions\<close>

text \<open>
  The expression classes (\<open>Expression\<close>, \<open>Constant\<close>, \<open>Parameter\<close>) are not part of the file.
  An expression is modelled by what the atom asks of it: \<open>isinstance(e, Parameter)\<close>,
  \<open>e.is_nonneg()\<close>, \<open>e.is_nonpos()\<close>, \<open>e.is_constant()\<close>, \<open>e.is_scalar()\<close>, \<open>e.value\<close>
  (\<open>None\<close> when the expression has no value yet; the atom reads the value of \<open>M\<close> only,
  a scalar) and \<open>e.size\<close>, the number of its elements.
\<close>

record expression =
  isinstance_Parameter :: bool
  is_nonneg :: bool
  is_nonpos :: bool
  is_constant :: bool
  is_scalar :: bool
  expr_value :: "real option"
  expr_size :: nat

text \<open>
  Modelled from the spec: \<open>Constant\<close>, the constant expression that wraps a number, is
  missing from the sources. The spec says that a numeric \<open>M\<close> is "a literal constant (value
  known at reduction time)", scalar, whose sign is the sign of the number: \<open>M = -1\<close> is
  rejected as not nonnegative and \<open>M = 0\<close> is accepted.
\<close>

definition Constant :: "real \<Rightarrow> expression" where
  "Constant v =
     \<lparr>isinstance_Parameter = False, is_nonneg = (0 \<le> v), is_nonpos = (v \<le> 0),
      is_constant = True, is_scalar = True, expr_value = Some v, expr_size = 1\<rparr>"

text \<open>What the caller passes for \<open>M\<close>: a number (int or float) or an expression.\<close>

datatype py_arg = Num real | Expr expression

text \<open>
  Modelled from the spec: \<open>cast_to_const\<close> of the expression base class is missing from the
  sources; "parameter/constant wrapping" turns a number into a constant expression and
  leaves an expression as it is.
\<close>

fun cast_to_const :: "py_arg \<Rightarrow> expression" where
  "cast_to_const (Num v) = Constant v"
| "cast_to_const (Expr e) = e"

subsection \<open>The atom\<close>

text \<open>The instance: \<open>self.args\<close>, \<open>self.M\<close> and \<open>self.size\<close>.\<close>

record huber =
  args :: "expression list"
  M :: expression
  atom_size :: nat

text \<open>\<open>validate_arguments\<close>: one test of the three conditions, one message.\<close>

definition validate_arguments :: "huber \<Rightarrow> py_error + unit" where
  "validate_arguments self =
     (if \<not> (is_nonneg (M self) \<and> is_constant (M self) \<and> is_scalar (M self))
      then Inl (ValueError ''M must be a non-negative scalar constant.'')
      else Inr ())"

text \<open>
  Modelled from the spec: the constructor of the base class \<open>Atom\<close>, which
  \<open>super(huber, self).__init__(x)\<close> calls, is missing from the sources. The spec's control
  flow is "atom construction \<rightarrow> validation gate", and "validation errors surface immediately
  and fatally abort construction": it stores the arguments, runs \<open>validate_arguments\<close> once
  and returns the instance only when the validation has passed. An elementwise atom of one
  argument has the shape, hence the size, of that argument.
\<close>

definition Atom_init :: "huber \<Rightarrow> expression list \<Rightarrow> py_error + huber" where
  "Atom_init self xs =
     (let self' = self\<lparr>args := xs\<rparr> in
      case validate_arguments self' of
        Inl e \<Rightarrow> Inl e
      | Inr _ \<Rightarrow> Inr (self'\<lparr>atom_size := (case xs of [] \<Rightarrow> 0 | x # _ \<Rightarrow> expr_size x)\<rparr>))"

text \<open>\<open>__init__(self, x, M=1)\<close>: the second argument is \<open>None\<close> when the caller omits it.\<close>

definition huber_init :: "expression \<Rightarrow> py_arg option \<Rightarrow> py_error + huber" where
  "huber_init x M_arg =
     (let self = \<lparr>args = [], M = cast_to_const (case M_arg of None \<Rightarrow> Num 1 | Some a \<Rightarrow> a),
                  atom_size = 0\<rparr>
      in Atom_init self [x])"

text \<open>\<open>get_data\<close>.\<close>

definition get_data :: "huber \<Rightarrow> expression list" where
  "get_data self = [M self]"

text \<open>
  \<open>numeric\<close>: \<open>2*scipy.special.huber(self.M.value, values[0])\<close>, the ufunc applied to every
  element of \<open>values[0]\<close> with the scalar \<open>self.M.value\<close> broadcast. An empty \<open>values\<close> raises
  IndexError at \<open>values[0]\<close>, a value \<open>None\<close> of \<open>M\<close> raises TypeError in the ufunc.
\<close>

definition huber_elem :: "real \<Rightarrow> real \<Rightarrow> npfloat" where
  "huber_elem delta v = np_double (scipy_huber delta v)"

definition numeric :: "huber \<Rightarrow> real list list \<Rightarrow> py_error + npfloat list" where
  "numeric self values =
     (case values of
        [] \<Rightarrow> Inl IndexError
      | v0 # _ \<Rightarrow>
         (case expr_value (M self) of
            None \<Rightarrow> Inl TypeError
          | Some delta \<Rightarrow> Inr (map (huber_elem delta) v0)))"

text \<open>\<open>sign_from_args\<close>, \<open>is_atom_convex\<close>, \<open>is_atom_concave\<close>.\<close>

definition sign_from_args :: "huber \<Rightarrow> bool \<times> bool" where
  "sign_from_args self = (True, False)"

definition is_atom_convex :: "huber \<Rightarrow> bool" where
  "is_atom_convex self = True"

definition is_atom_concave :: "huber \<Rightarrow> bool" where
  "is_atom_concave self = False"

text \<open>Python's \<open>xs[idx]\<close>: a negative index counts from the end, an index out of range
  raises IndexError.\<close>

definition py_index :: "'a list \<Rightarrow> int \<Rightarrow> py_error + 'a" where
  "py_index xs idx =
     (let len = int (length xs); j = (if idx < 0 then len + idx else idx)
      in if 0 \<le> j \<and> j < len then Inr (xs ! nat j) else Inl IndexError)"

text \<open>\<open>is_incr\<close> and \<open>is_decr\<close>.\<close>

definition is_incr :: "huber \<Rightarrow> int \<Rightarrow> py_error + bool" where
  "is_incr self idx =
     (case py_index (args self) idx of Inl e \<Rightarrow> Inl e | Inr a \<Rightarrow> Inr (is_nonneg a))"

definition is_decr :: "huber \<Rightarrow> int \<Rightarrow> py_error + bool" where
  "is_decr self idx =
     (case py_index (args self) idx of Inl e \<Rightarrow> Inl e | Inr a \<Rightarrow> Inr (is_nonpos a))"

subsection \<open>The subgradient\<close>

text \<open>
  Modelled from the spec: \<open>Elementwise.elemwise_grad_to_diag\<close> is missing from the sources.
  The spec describes its result: a sparse matrix "laid out so row j, column k is the
  derivative of output element j with respect to argument element k", which "for the Huber
  atom is diagonal". The matrix is modelled by its dimensions and its stored entries
  \<open>(row, column, value)\<close>, the \<open>i\<close>-th value on the diagonal at \<open>(i, i)\<close>.
\<close>

record sparse_matrix =
  nrows :: nat
  ncols :: nat
  entries :: "(nat \<times> nat \<times> real) list"

definition elemwise_grad_to_diag :: "real list \<Rightarrow> nat \<Rightarrow> nat \<Rightarrow> sparse_matrix" where
  "elemwise_grad_to_diag vals rows cols =
     \<lparr>nrows = rows, ncols = cols,
      entries = map (\<lambda>i. (i, i, vals ! i)) [0 ..< length vals]\<rparr>"

text \<open>The entry of a sparse matrix at row \<open>j\<close>, column \<open>k\<close>: the stored value, or zero.\<close>

fun lookup_entry :: "(nat \<times> nat \<times> real) list \<Rightarrow> nat \<Rightarrow> nat \<Rightarrow> real" where
  "lookup_entry [] j k = 0"
| "lookup_entry ((r, c, v) # es) j k = (if r = j \<and> c = k then v else lookup_entry es j k)"

definition entry_at :: "sparse_matrix \<Rightarrow> nat \<Rightarrow> nat \<Rightarrow> real" where
  "entry_at A j k = lookup_entry (entries A) j k"

text \<open>The value \<open>2*np.multiply(np.sign(v), np.minimum(np.abs(v), M))\<close> of one element.\<close>

definition grad_elem :: "real \<Rightarrow> real \<Rightarrow> real" where
  "grad_elem delta v = 2 * (sgn v * min \<bar>v\<bar> delta)"

text \<open>\<open>_grad\<close>: \<open>self.args[0]\<close> and \<open>values[0]\<close> raise IndexError on an empty list,
  \<open>np.minimum\<close> raises TypeError on the value \<open>None\<close>.\<close>

definition grad :: "huber \<Rightarrow> real list list \<Rightarrow> py_error + sparse_matrix list" where
  "grad self values =
     (case args self of
        [] \<Rightarrow> Inl IndexError
      | a0 # _ \<Rightarrow>
         (let rows = expr_size a0; cols = atom_size self in
          case values of
            [] \<Rightarrow> Inl IndexError
          | v0 # _ \<Rightarrow>
             (case expr_value (M self) of
                None \<Rightarrow> Inl TypeError
              | Some delta \<Rightarrow>
                  (let grad_vals = map (grad_elem delta) v0
                   in Inr [elemwise_grad_to_diag grad_vals rows cols]))))"

subsection \<open>The reduced graph\<close>

text \<open>
  Modelled from the spec: the module \<open>cvxpy.lin_ops.lin_utils\<close> (\<open>lu\<close>) is missing from the
  sources. The spec calls what it builds "affine expression nodes" and "constraint nodes":
  a variable with a shape and an identifier, "a symbolic reference" to a parameter, "a
  literal numeric value as a 1\<times>1 coefficient", sums and products of nodes, and the equality
  of two nodes. The constraints of the primitives (square, absolute value) are of kinds
  this file does not fix: the type parameter \<open>'c\<close>.
\<close>

type_synonym shape = "nat list"

datatype lin_op =
    Var_op shape nat
  | Param_op expression shape
  | Const_op "real option" shape
  | Sum_op "lin_op list"
  | Mul_op lin_op lin_op

datatype 'c constraint = LinEqConstr lin_op lin_op | PrimitiveConstr 'c

text \<open>
  Modelled from the spec: \<open>lu.create_var\<close> takes its identifier from an "incrementing-
  identifier allocator"; the allocator is the counter passed through the reduction.
\<close>

definition create_var :: "shape \<Rightarrow> nat \<Rightarrow> lin_op \<times> nat" where
  "create_var shp next_id = (Var_op shp next_id, Suc next_id)"

definition create_param :: "expression \<Rightarrow> shape \<Rightarrow> lin_op" where
  "create_param p shp = Param_op p shp"

definition create_const :: "real option \<Rightarrow> shape \<Rightarrow> lin_op" where
  "create_const v shp = Const_op v shp"

definition sum_expr :: "lin_op list \<Rightarrow> lin_op" where
  "sum_expr ops = Sum_op ops"

definition mul_expr :: "lin_op \<Rightarrow> lin_op \<Rightarrow> lin_op" where
  "mul_expr lh_op rh_op = Mul_op lh_op rh_op"

definition create_eq :: "lin_op \<Rightarrow> lin_op \<Rightarrow> 'c constraint" where
  "create_eq lh_op rh_op = LinEqConstr lh_op rh_op"

text \<open>
  Modelled from the spec: the meaning of a node (scalar shape) is not in the sources. The
  spec reads the objective as the affine expression \<open>n\<^sup>2_expr + 2 * M_term * abs_s_expr\<close>,
  evaluated "under any feasible assignment". Under an assignment \<open>\<sigma>\<close> of the variables a sum
  node is the sum and a product node the product of its parts; a parameter and a constant
  stand for their values, \<open>None\<close> when they have none.
\<close>

fun eval_op :: "(nat \<Rightarrow> real) \<Rightarrow> lin_op \<Rightarrow> real option"
  and eval_sum :: "(nat \<Rightarrow> real) \<Rightarrow> lin_op list \<Rightarrow> real option" where
  "eval_op \<sigma> (Var_op shp i) = Some (\<sigma> i)"
| "eval_op \<sigma> (Param_op p shp) = expr_value p"
| "eval_op \<sigma> (Const_op v shp) = v"
| "eval_op \<sigma> (Sum_op ops) = eval_sum \<sigma> ops"
| "eval_op \<sigma> (Mul_op a b) =
     (case eval_op \<sigma> a of
        None \<Rightarrow> None
      | Some u \<Rightarrow> (case eval_op \<sigma> b of None \<Rightarrow> None | Some v \<Rightarrow> Some (u * v)))"
| "eval_sum \<sigma> [] = Some 0"
| "eval_sum \<sigma> (a # as) =
     (case eval_op \<sigma> a of
        None \<Rightarrow> None
      | Some u \<Rightarrow> (case eval_sum \<sigma> as of None \<Rightarrow> None | Some v \<Rightarrow> Some (u + v)))"

text \<open>
  \<open>power.graph_implementation\<close> and \<open>abs.graph_implementation\<close> are missing from the
  sources: they are parameters of the reduction. Each takes the argument nodes, the shape
  (the power also its data \<open>(p, (w\<^sub>1, w\<^sub>2))\<close>) and the allocator, and returns its node, its
  constraints and the allocator, or raises.
\<close>

type_synonym 'c reduced = "py_error + ((lin_op \<times> 'c constraint list) \<times> nat)"

type_synonym 'c power_reducer = "lin_op list \<Rightarrow> shape \<Rightarrow> int \<times> rat \<times> rat \<Rightarrow> nat \<Rightarrow> 'c reduced"

type_synonym 'c abs_reducer = "lin_op list \<Rightarrow> shape \<Rightarrow> nat \<Rightarrow> 'c reduced"

text \<open>
  \<open>graph_implementation(arg_objs, shape, data=None)\<close>. \<open>data[0]\<close> raises TypeError when
  \<open>data\<close> is \<open>None\<close> and IndexError when it is empty; \<open>arg_objs[0]\<close> raises IndexError
  when \<open>arg_objs\<close> is empty.
\<close>

definition graph_implementation ::
  "'c power_reducer \<Rightarrow> 'c abs_reducer \<Rightarrow> lin_op list \<Rightarrow> shape \<Rightarrow> expression list option \<Rightarrow> nat
     \<Rightarrow> 'c reduced" where
  "graph_implementation power_gi abs_gi arg_objs shp data st =
     (case data of
        None \<Rightarrow> Inl TypeError
      | Some [] \<Rightarrow> Inl IndexError
      | Some (M0 # _) \<Rightarrow>
         (case arg_objs of
            [] \<Rightarrow> Inl IndexError
          | x # _ \<Rightarrow>
             (let (n, st1) = create_var shp st;
                  (s, st2) = create_var shp st1;
                  two = create_const (Some 2) [1, 1];
                  M1 = (if isinstance_Parameter M0 then create_param M0 [1, 1]
                        else create_const (expr_value M0) [1, 1])
              in case power_gi [n] shp (2, (1 / 2, 1 / 2)) st2 of
                   Inl e \<Rightarrow> Inl e
                 | Inr ((n2, constr_sq), st3) \<Rightarrow>
                    (case abs_gi [s] shp st3 of
                       Inl e \<Rightarrow> Inl e
                     | Inr ((abs_s, constr_abs), st4) \<Rightarrow>
                        (let M_abs_s = mul_expr M1 abs_s;
                             obj = sum_expr [n2, mul_expr two M_abs_s];
                             constraints = constr_sq @ constr_abs;
                             constraints = constraints @ [create_eq x (sum_expr [n, s])]
                         in Inr ((obj, constraints), st4))))))"

text \<open>
  The optimisation problem of the reduction, in the words of the docstring of
  \<open>graph_implementation\<close>: "minimize n^2 + 2M|s| subject to s + n = x".
\<close>

definition split_objective :: "real \<Rightarrow> real \<Rightarrow> real \<Rightarrow> real" where
  "split_objective m n s = n\<^sup>2 + 2 * m * \<bar>s\<bar>"

definition split_feasible :: "real \<Rightarrow> real \<Rightarrow> real \<Rightarrow> bool" where
  "split_feasible x n s = (s + n = x)"

subsection \<open>The function of the spec\<close>

text \<open>
  The spec's \<open>evaluate\<close> for one element: \<open>f(x, M) = x\<^sup>2\<close> if \<open>|x| \<le> M\<close>, \<open>2M|x| - M\<^sup>2\<close> if
  \<open>|x| > M\<close>. The theorems below compare it with \<open>huber_elem\<close>, the computation of the
  source.
\<close>

definition spec_evaluate :: "real \<Rightarrow> real \<Rightarrow> real" where
  "spec_evaluate m x = (if \<bar>x\<bar> \<le> m then x\<^sup>2 else 2 * m * \<bar>x\<bar> - m\<^sup>2)"

text \<open>The point of \<open>[-m, m]\<close> nearest to \<open>z\<close>: the part \<open>n\<close> of the best split of \<open>z\<close>.\<close>

definition clip :: "real \<Rightarrow> real \<Rightarrow> real" where
  "clip m z = max (- m) (min m z)"

section \<open>The mathematics of the Huber function\<close>

lemma huber_elem_spec: "0 \<le> m \<Longrightarrow> huber_elem m v = Finite (spec_evaluate m v)"
  by (simp add: huber_elem_def scipy_huber_def spec_evaluate_def power2_eq_square algebra_simps)

lemma spec_evaluate_nonneg: "0 \<le> m \<Longrightarrow> 0 \<le> spec_evaluate m x"
proof (cases "\<bar>x\<bar> \<le> m")
  case True
  then show ?thesis by (simp add: spec_evaluate_def)
next
  case False
  assume m: "0 \<le> m"
  from False have "m \<le> \<bar>x\<bar>" by simp
  with m have "m * m \<le> m * \<bar>x\<bar>" by (intro mult_left_mono) simp_all
  moreover from m have "0 \<le> m * \<bar>x\<bar>" by simp
  ultimately have "0 \<le> 2 * m * \<bar>x\<bar> - m\<^sup>2" by (simp add: power2_eq_square)
  with False show ?thesis by (simp add: spec_evaluate_def)
qed

lemma spec_evaluate_affine_below:
  assumes "\<bar>a\<bar> \<le> m"
  shows "2 * a * w - a\<^sup>2 \<le> spec_evaluate m w"
proof (cases "\<bar>w\<bar> \<le> m")
  case True
  have "0 \<le> (w - a)\<^sup>2" by simp
  then have "2 * a * w - a\<^sup>2 \<le> w\<^sup>2" by (simp add: power2_diff algebra_simps)
  with True show ?thesis by (simp add: spec_evaluate_def)
next
  case False
  then have w: "m < \<bar>w\<bar>" by simp
  have "a * w \<le> \<bar>a\<bar> * \<bar>w\<bar>" by (metis abs_ge_self abs_mult)
  moreover have "0 \<le> (m - \<bar>a\<bar>) * (2 * \<bar>w\<bar> - m - \<bar>a\<bar>)"
    using assms w by (intro mult_nonneg_nonneg) simp_all
  then have "2 * \<bar>a\<bar> * \<bar>w\<bar> - \<bar>a\<bar>\<^sup>2 \<le> 2 * m * \<bar>w\<bar> - m\<^sup>2"
    by (simp add: algebra_simps power2_eq_square)
  ultimately have "2 * a * w - a\<^sup>2 \<le> 2 * m * \<bar>w\<bar> - m\<^sup>2" by simp
  with False show ?thesis by (simp add: spec_evaluate_def)
qed

lemma spec_evaluate_affine_touch:
  assumes "0 \<le> m"
  shows "\<bar>clip m z\<bar> \<le> m \<and> spec_evaluate m z = 2 * clip m z * z - (clip m z)\<^sup>2"
proof (cases "\<bar>z\<bar> \<le> m")
  case True
  then have "clip m z = z" by (simp add: clip_def)
  with True show ?thesis by (simp add: spec_evaluate_def power2_eq_square)
next
  case False
  show ?thesis
  proof (cases "0 \<le> z")
    case True
    with False assms have "clip m z = m" by (simp add: clip_def)
    with False True assms show ?thesis by (simp add: spec_evaluate_def power2_eq_square)
  next
    case neg: False
    with False assms have "clip m z = - m" by (simp add: clip_def)
    with False neg assms show ?thesis by (simp add: spec_evaluate_def power2_eq_square)
  qed
qed

lemma spec_evaluate_convex:
  assumes m: "0 \<le> m" and t: "0 \<le> t" "t \<le> 1"
  shows "spec_evaluate m (t * x + (1 - t) * y) \<le> t * spec_evaluate m x + (1 - t) * spec_evaluate m y"
proof -
  define z where "z = t * x + (1 - t) * y"
  define a where "a = clip m z"
  from spec_evaluate_affine_touch[OF m, of z]
  have a: "\<bar>a\<bar> \<le> m" and eq: "spec_evaluate m z = 2 * a * z - a\<^sup>2" by (simp_all add: a_def)
  have "2 * a * z - a\<^sup>2 = t * (2 * a * x - a\<^sup>2) + (1 - t) * (2 * a * y - a\<^sup>2)"
    by (simp add: z_def algebra_simps)
  also have "\<dots> \<le> t * spec_evaluate m x + (1 - t) * spec_evaluate m y"
    using t spec_evaluate_affine_below[OF a] by (intro add_mono mult_left_mono) simp_all
  finally show ?thesis using eq by (simp add: z_def)
qed

lemma split_lower:
  assumes m: "0 \<le> m"
  shows "spec_evaluate m (n + s) \<le> n\<^sup>2 + 2 * m * \<bar>s\<bar>"
proof -
  define a where "a = clip m (n + s)"
  from spec_evaluate_affine_touch[OF m, of "n + s"]
  have a: "\<bar>a\<bar> \<le> m" and eq: "spec_evaluate m (n + s) = 2 * a * (n + s) - a\<^sup>2" by (simp_all add: a_def)
  have "0 \<le> (n - a)\<^sup>2" by simp
  then have 1: "2 * a * n - a\<^sup>2 \<le> n\<^sup>2" by (simp add: power2_diff algebra_simps)
  have "a * s \<le> \<bar>a\<bar> * \<bar>s\<bar>" by (metis abs_ge_self abs_mult)
  also have "\<dots> \<le> m * \<bar>s\<bar>" using a by (intro mult_right_mono) simp_all
  finally have 2: "2 * a * s \<le> 2 * m * \<bar>s\<bar>" by simp
  have "2 * a * (n + s) - a\<^sup>2 = (2 * a * n - a\<^sup>2) + 2 * a * s" by (simp add: algebra_simps)
  with 1 2 eq show ?thesis by simp
qed

lemma split_attained:
  assumes m: "0 \<le> m"
  shows "(clip m x)\<^sup>2 + 2 * m * \<bar>x - clip m x\<bar> = spec_evaluate m x"
proof (cases "\<bar>x\<bar> \<le> m")
  case True
  then have "clip m x = x" by (simp add: clip_def)
  with True show ?thesis by (simp add: spec_evaluate_def)
next
  case False
  show ?thesis
  proof (cases "0 \<le> x")
    case True
    with False m have "clip m x = m" by (simp add: clip_def)
    with False True m show ?thesis by (simp add: spec_evaluate_def power2_eq_square algebra_simps)
  next
    case neg: False
    with False m have "clip m x = - m" by (simp add: clip_def)
    with False neg m show ?thesis by (simp add: spec_evaluate_def power2_eq_square algebra_simps)
  qed
qed

lemma grad_elem_inside: "\<bar>x\<bar> < m \<Longrightarrow> grad_elem m x = 2 * x"
  by (simp add: grad_elem_def min_def sgn_real_def abs_real_def)

lemma grad_elem_outside: "0 \<le> m \<Longrightarrow> m < \<bar>x\<bar> \<Longrightarrow> grad_elem m x = 2 * m * sgn x"
  by (simp add: grad_elem_def min_def)

lemma spec_evaluate_deriv:
  assumes m: "0 \<le> m" and knee: "\<bar>x\<bar> \<noteq> m"
  shows "(spec_evaluate m has_real_derivative grad_elem m x) (at x)"
proof -
  consider "\<bar>x\<bar> < m" | "m < x" | "x < - m" using knee by linarith
  then show ?thesis
  proof cases
    case 1
    have "((\<lambda>y. y\<^sup>2) has_real_derivative 2 * x) (at x)"
      by (rule derivative_eq_intros | simp)+
    moreover have "open {- m <..< m}" "x \<in> {- m <..< m}" using 1 by auto
    moreover have "\<And>y. y \<in> {- m <..< m} \<Longrightarrow> y\<^sup>2 = spec_evaluate m y"
      by (auto simp: spec_evaluate_def)
    ultimately have "(spec_evaluate m has_real_derivative 2 * x) (at x)"
      by (rule has_field_derivative_transform_within_open)
    with 1 show ?thesis by (simp add: grad_elem_inside)
  next
    case 2
    have "((\<lambda>y. 2 * m * y - m\<^sup>2) has_real_derivative 2 * m) (at x)"
      by (rule derivative_eq_intros | simp)+
    moreover have "open {m <..}" "x \<in> {m <..}" using 2 by auto
    moreover have "\<And>y. y \<in> {m <..} \<Longrightarrow> 2 * m * y - m\<^sup>2 = spec_evaluate m y"
      using m by (auto simp: spec_evaluate_def)
    ultimately have "(spec_evaluate m has_real_derivative 2 * m) (at x)"
      by (rule has_field_derivative_transform_within_open)
    moreover from 2 m have "grad_elem m x = 2 * m" by (simp add: grad_elem_outside)
    ultimately show ?thesis by simp
  next
    case 3
    have "((\<lambda>y. 2 * m * (- y) - m\<^sup>2) has_real_derivative - (2 * m)) (at x)"
      by (rule derivative_eq_intros | simp)+
    moreover have "open {..< - m}" "x \<in> {..< - m}" using 3 by auto
    moreover have "\<And>y. y \<in> {..< - m} \<Longrightarrow> 2 * m * (- y) - m\<^sup>2 = spec_evaluate m y"
      using m by (auto simp: spec_evaluate_def)
    ultimately have "(spec_evaluate m has_real_derivative - (2 * m)) (at x)"
      by (rule has_field_derivative_transform_within_open)
    moreover from 3 m have "grad_elem m x = - (2 * m)" by (simp add: grad_elem_outside)
    ultimately show ?thesis by simp
  qed
qed

lemma spec_evaluate_min_form:
  "0 \<le> m \<Longrightarrow> spec_evaluate m x = (min \<bar>x\<bar> m)\<^sup>2 + 2 * m * (\<bar>x\<bar> - min \<bar>x\<bar> m)"
  by (simp add: spec_evaluate_def min_def power2_eq_square algebra_simps)

lemma spec_evaluate_isCont:
  assumes m: "0 \<le> m"
  shows "isCont (spec_evaluate m) x"
proof -
  have "isCont (\<lambda>x. (min \<bar>x\<bar> m)\<^sup>2 + 2 * m * (\<bar>x\<bar> - min \<bar>x\<bar> m)) x"
    by (intro continuous_intros)
  moreover have "spec_evaluate m = (\<lambda>x. (min \<bar>x\<bar> m)\<^sup>2 + 2 * m * (\<bar>x\<bar> - min \<bar>x\<bar> m))"
    using spec_evaluate_min_form[OF m] by (intro ext)
  ultimately show ?thesis by simp
qed

lemma spec_evaluate_knee: "\<bar>x\<bar> = m \<Longrightarrow> x\<^sup>2 = 2 * m * \<bar>x\<bar> - m\<^sup>2" for x m :: real
  by (auto simp: power2_eq_square)

lemma huber_elem_zero: "huber_elem 0 v = Finite 0"
  by (simp add: huber_elem_def scipy_huber_def)

lemma numeric_spec:
  assumes "0 \<le> m" and "expr_value (M self) = Some m"
  shows "numeric self (v0 # vs) = Inr (map (\<lambda>x. Finite (spec_evaluate m x)) v0)"
  using assms by (simp add: numeric_def huber_elem_spec)

lemma split_unique:
  assumes m: "0 \<le> m" and eq: "n\<^sup>2 + 2 * m * \<bar>x - n\<bar> = spec_evaluate m x"
  shows "n = clip m x"
proof (rule ccontr)
  assume ne: "n \<noteq> clip m x"
  define c where "c = clip m x"
  define p where "p = (n + c) / 2"
  have c: "c\<^sup>2 + 2 * m * \<bar>x - c\<bar> = spec_evaluate m x"
    unfolding c_def by (rule split_attained[OF m])
  have low: "spec_evaluate m x \<le> p\<^sup>2 + 2 * m * \<bar>x - p\<bar>"
    using split_lower[OF m, of p "x - p"] by simp
  have sq: "p\<^sup>2 = (n\<^sup>2 + c\<^sup>2) / 2 - ((n - c) / 2)\<^sup>2"
    by (simp add: p_def power2_eq_square field_simps)
  have "x - p = (x - n) / 2 + (x - c) / 2" by (simp add: p_def field_simps)
  then have "\<bar>x - p\<bar> = \<bar>(x - n) / 2 + (x - c) / 2\<bar>" by simp
  also have "\<dots> \<le> \<bar>(x - n) / 2\<bar> + \<bar>(x - c) / 2\<bar>" by (rule abs_triangle_ineq)
  finally have ab: "\<bar>x - p\<bar> \<le> (\<bar>x - n\<bar> + \<bar>x - c\<bar>) / 2" by simp
  have "m * \<bar>x - p\<bar> \<le> m * ((\<bar>x - n\<bar> + \<bar>x - c\<bar>) / 2)"
    using m ab by (rule mult_left_mono[rotated])
  then have "2 * m * \<bar>x - p\<bar> \<le> m * \<bar>x - n\<bar> + m * \<bar>x - c\<bar>" by (simp add: algebra_simps)
  with sq have "p\<^sup>2 + 2 * m * \<bar>x - p\<bar>
      \<le> ((n\<^sup>2 + 2 * m * \<bar>x - n\<bar>) + (c\<^sup>2 + 2 * m * \<bar>x - c\<bar>)) / 2 - ((n - c) / 2)\<^sup>2"
    by (simp add: field_simps)
  also have "\<dots> = spec_evaluate m x - ((n - c) / 2)\<^sup>2" using eq c by simp
  finally have "((n - c) / 2)\<^sup>2 \<le> 0" using low by linarith
  then have "(n - c) / 2 = 0" by (simp only: power2_less_eq_zero_iff)
  then have "n = c" by simp
  with ne show False by (simp add: c_def)
qed

lemma clip_1_3: "clip 1 3 = 1"
  by (simp add: clip_def)

lemma clip_1_half: "clip 1 (1 / 2) = 1 / 2"
  by (simp add: clip_def)

subsection \<open>The operations of the atom\<close>

lemma huber_init_eq:
  "huber_init x M_arg =
     (let m = cast_to_const (case M_arg of None \<Rightarrow> Num 1 | Some a \<Rightarrow> a) in
      if is_nonneg m \<and> is_constant m \<and> is_scalar m
      then Inr \<lparr>args = [x], M = m, atom_size = expr_size x\<rparr>
      else Inl (ValueError ''M must be a non-negative scalar constant.''))"
  by (simp add: huber_init_def Atom_init_def validate_arguments_def Let_def)

lemma huber_init_Num:
  "huber_init x (Some (Num v)) =
     (if 0 \<le> v then Inr \<lparr>args = [x], M = Constant v, atom_size = expr_size x\<rparr>
      else Inl (ValueError ''M must be a non-negative scalar constant.''))"
  by (simp add: huber_init_eq Constant_def)

lemma graph_implementation_ok:
  assumes "power_gi [Var_op shp st] shp (2, (1 / 2, 1 / 2)) (Suc (Suc st)) = Inr ((n2, constr_sq), st3)"
    and "abs_gi [Var_op shp (Suc st)] shp st3 = Inr ((abs_s, constr_abs), st4)"
  shows "graph_implementation power_gi abs_gi (x # xs) shp (Some (M0 # ds)) st =
     Inr ((Sum_op [n2, Mul_op (Const_op (Some 2) [1, 1])
                    (Mul_op (if isinstance_Parameter M0 then Param_op M0 [1, 1]
                             else Const_op (expr_value M0) [1, 1]) abs_s)],
           constr_sq @ constr_abs @ [LinEqConstr x (Sum_op [Var_op shp st, Var_op shp (Suc st)])]),
          st4)"
  using assms
  by (simp add: graph_implementation_def create_var_def create_const_def create_param_def
      sum_expr_def mul_expr_def create_eq_def)

lemma graph_objective_value:
  assumes "power_gi [Var_op shp st] shp (2, (1 / 2, 1 / 2)) (Suc (Suc st)) = Inr ((n2, constr_sq), st3)"
    and "abs_gi [Var_op shp (Suc st)] shp st3 = Inr ((abs_s, constr_abs), st4)"
    and "expr_value M0 = Some m" and "eval_op \<sigma> n2 = Some a" and "eval_op \<sigma> abs_s = Some b"
  shows "\<exists>obj cs. graph_implementation power_gi abs_gi (xo # xs) shp (Some (M0 # ds)) st
                    = Inr ((obj, cs @ [LinEqConstr xo (Sum_op [Var_op shp st, Var_op shp (Suc st)])]), st4)
                  \<and> eval_op \<sigma> obj = Some (a + 2 * (m * b))"
  using assms
    graph_implementation_ok[of power_gi shp st n2 constr_sq st3 abs_gi abs_s constr_abs st4 xo xs M0 ds]
  by (cases "isinstance_Parameter M0") auto

lemma lookup_entry_diag:
  "lookup_entry (map (\<lambda>i. (i, i, f i)) is) j k = (if j = k \<and> j \<in> set is then f j else 0)"
  by (induction "is") auto

lemma entry_at_diag:
  "entry_at (elemwise_grad_to_diag vals rows cols) j k =
     (if j = k \<and> j < length vals then vals ! j else 0)"
  by (simp add: entry_at_def elemwise_grad_to_diag_def lookup_entry_diag)

lemma grad_eq:
  assumes "expr_value (M self) = Some m" and "args self = a0 # as"
  shows "grad self (v0 # vs) =
           Inr [elemwise_grad_to_diag (map (grad_elem m) v0) (expr_size a0) (atom_size self)]"
  using assms by (simp add: grad_def)

lemma py_index_in_range:
  "0 \<le> i \<Longrightarrow> i < int (length xs) \<Longrightarrow> py_index xs i = Inr (xs ! nat i)"
  by (simp add: py_index_def)

section \<open>The claims\<close>

text \<open>
  C1 (as amended). For every real \<open>x\<close> and every constant \<open>m \<ge> 0\<close>, the value of the atom at
  \<open>x\<close> is the minimum of \<open>n\<^sup>2 + 2m|s|\<close> over the splits \<open>s + n = x\<close>: it is below the objective
  of every split, it is the objective of the split \<open>n = clip m x\<close>, \<open>s = x - n\<close>, and no other
  split attains it. For \<open>x = 3\<close>, \<open>m = 1\<close> the minimum is 5, at \<open>n = 1\<close>, \<open>s = 2\<close>; for
  \<open>x = 1/2\<close>, \<open>m = 1\<close> it is \<open>1/4\<close>, at \<open>n = 1/2\<close>, \<open>s = 0\<close>. That objective is the one of the
  reduced graph: when \<open>M\<close> has the value \<open>m\<close> and, under an assignment \<open>\<sigma>\<close>, the node of the
  square has the value \<open>n\<^sup>2\<close> and the node of the absolute value has the value \<open>|s|\<close>, the
  objective that \<open>graph_implementation\<close> returns has the value \<open>n\<^sup>2 + 2m|s|\<close>, and the right side of
  its last constraint has the value \<open>n + s\<close>.
\<close>

theorem huber_is_min_over_splits:
  assumes "0 \<le> m"
  shows "(\<exists>r. huber_elem m x = Finite r
            \<and> (\<forall>n s. split_feasible x n s \<longrightarrow> r \<le> split_objective m n s)
            \<and> split_feasible x (clip m x) (x - clip m x)
            \<and> split_objective m (clip m x) (x - clip m x) = r
            \<and> (\<forall>n s. split_feasible x n s \<and> split_objective m n s = r
                  \<longrightarrow> n = clip m x \<and> s = x - clip m x))
         \<and> huber_elem 1 3 = Finite 5 \<and> clip 1 3 = 1
         \<and> split_feasible 3 1 2 \<and> split_objective 1 1 2 = 5
         \<and> huber_elem 1 (1 / 2) = Finite (1 / 4) \<and> clip 1 (1 / 2) = 1 / 2
         \<and> split_feasible (1 / 2) (1 / 2) 0 \<and> split_objective 1 (1 / 2) 0 = 1 / 4
         \<and> (power_gi [fst (create_var shp st)] shp (2, (1 / 2, 1 / 2)) (st + 2)
                = Inr ((n2, constr_sq), st3)
              \<and> abs_gi [fst (create_var shp (st + 1))] shp st3 = Inr ((abs_s, constr_abs), st4)
              \<and> expr_value M0 = Some m
              \<and> eval_op \<sigma> n2 = Some ((\<sigma> st)\<^sup>2) \<and> eval_op \<sigma> abs_s = Some \<bar>\<sigma> (st + 1)\<bar>
            \<longrightarrow> (\<exists>obj cs. graph_implementation power_gi abs_gi (xo # xs) shp (Some (M0 # ds)) st
                     = Inr ((obj, cs @ [create_eq xo (sum_expr [fst (create_var shp st),
                                                                 fst (create_var shp (st + 1))])]),
                            st4)
                   \<and> eval_op \<sigma> obj = Some (split_objective m (\<sigma> st) (\<sigma> (st + 1)))
                   \<and> eval_op \<sigma> (sum_expr [fst (create_var shp st), fst (create_var shp (st + 1))])
                       = Some (\<sigma> st + \<sigma> (st + 1))))"
proof -
  let ?r = "spec_evaluate m x"
  have 1: "huber_elem m x = Finite ?r" using assms by (rule huber_elem_spec)
  have 2: "\<forall>n s. split_feasible x n s \<longrightarrow> ?r \<le> split_objective m n s"
    using split_lower[OF assms] by (auto simp: split_feasible_def split_objective_def add.commute)
  have 3: "split_feasible x (clip m x) (x - clip m x)" by (simp add: split_feasible_def)
  have 4: "split_objective m (clip m x) (x - clip m x) = ?r"
    using split_attained[OF assms, of x] by (simp add: split_objective_def)
  have 5: "\<forall>n s. split_feasible x n s \<and> split_objective m n s = ?r
                  \<longrightarrow> n = clip m x \<and> s = x - clip m x"
  proof (intro allI impI)
    fix n s assume h: "split_feasible x n s \<and> split_objective m n s = ?r"
    then have s: "s = x - n" by (auto simp: split_feasible_def)
    with h have "n\<^sup>2 + 2 * m * \<bar>x - n\<bar> = ?r" by (simp add: split_objective_def)
    then have "n = clip m x" by (rule split_unique[OF assms])
    with s show "n = clip m x \<and> s = x - clip m x" by simp
  qed
  have 6: "huber_elem 1 3 = Finite 5" "huber_elem 1 (1 / 2) = Finite (1 / 4)"
    by (simp_all add: huber_elem_def scipy_huber_def power2_eq_square)
  have 7: "split_feasible 3 1 2" "split_objective 1 1 2 = 5"
    "split_feasible (1 / 2) (1 / 2) 0" "split_objective 1 (1 / 2) 0 = 1 / 4"
    by (simp_all add: split_feasible_def split_objective_def power2_eq_square)
  have 8: "\<exists>obj cs. graph_implementation power_gi abs_gi (xo # xs) shp (Some (M0 # ds)) st
                     = Inr ((obj, cs @ [create_eq xo (sum_expr [fst (create_var shp st),
                                                                 fst (create_var shp (st + 1))])]),
                            st4)
                   \<and> eval_op \<sigma> obj = Some (split_objective m (\<sigma> st) (\<sigma> (st + 1)))
                   \<and> eval_op \<sigma> (sum_expr [fst (create_var shp st), fst (create_var shp (st + 1))])
                       = Some (\<sigma> st + \<sigma> (st + 1))"
    if h: "power_gi [fst (create_var shp st)] shp (2, (1 / 2, 1 / 2)) (st + 2)
                = Inr ((n2, constr_sq), st3)
              \<and> abs_gi [fst (create_var shp (st + 1))] shp st3 = Inr ((abs_s, constr_abs), st4)
              \<and> expr_value M0 = Some m
              \<and> eval_op \<sigma> n2 = Some ((\<sigma> st)\<^sup>2) \<and> eval_op \<sigma> abs_s = Some \<bar>\<sigma> (st + 1)\<bar>"
  proof -
    from h have p: "power_gi [Var_op shp st] shp (2, (1 / 2, 1 / 2)) (Suc (Suc st)) = Inr ((n2, constr_sq), st3)"
      and a: "abs_gi [Var_op shp (Suc st)] shp st3 = Inr ((abs_s, constr_abs), st4)"
      and v: "expr_value M0 = Some m" "eval_op \<sigma> n2 = Some ((\<sigma> st)\<^sup>2)"
        "eval_op \<sigma> abs_s = Some \<bar>\<sigma> (Suc st)\<bar>"
      by (simp_all add: create_var_def)
    from p a v
      graph_objective_value[of power_gi shp st n2 constr_sq st3 abs_gi abs_s constr_abs st4 M0 m
        \<sigma> "(\<sigma> st)\<^sup>2" "\<bar>\<sigma> (Suc st)\<bar>" xo xs ds]
    show ?thesis
      by (simp add: create_var_def create_eq_def sum_expr_def split_objective_def mult.assoc)
  qed
  from 1 2 3 4 5 have "\<exists>r. huber_elem m x = Finite r
            \<and> (\<forall>n s. split_feasible x n s \<longrightarrow> r \<le> split_objective m n s)
            \<and> split_feasible x (clip m x) (x - clip m x)
            \<and> split_objective m (clip m x) (x - clip m x) = r
            \<and> (\<forall>n s. split_feasible x n s \<and> split_objective m n s = r
                  \<longrightarrow> n = clip m x \<and> s = x - clip m x)"
    by (intro exI[of _ ?r]) blast
  with 6 7 8 clip_1_3 clip_1_half show ?thesis by blast
qed

theorem huber_is_min_over_splits_witness:
  "(0::real) \<le> 1
   \<and> (\<exists>r. huber_elem 1 3 = Finite r \<and> split_feasible 3 (clip 1 3) (3 - clip 1 3)
          \<and> split_objective 1 (clip 1 3) (3 - clip 1 3) = r \<and> r = 5)
   \<and> (\<lambda>as sh d i. Inr ((Var_op sh i, [PrimitiveConstr ''sq'']), Suc i))
       [fst (create_var [1, 1] 10)] [1, 1] (2, (1 / 2, 1 / 2)) (10 + 2)
     = (Inr ((Var_op [1, 1] 12, [PrimitiveConstr ''sq'']), 13) :: string reduced)
   \<and> (\<lambda>as sh i. Inr ((Var_op sh i, [PrimitiveConstr ''abs'']), Suc i))
       [fst (create_var [1, 1] (10 + 1))] [1, 1] 13
     = (Inr ((Var_op [1, 1] 13, [PrimitiveConstr ''abs'']), 14) :: string reduced)
   \<and> expr_value (Constant 1) = Some 1
   \<and> eval_op (\<lambda>i. [1, 2, 1, 2] ! (i - 10)) (Var_op [1, 1] 12)
       = Some (([1, 2, 1, 2] ! (10 - 10))\<^sup>2)
   \<and> eval_op (\<lambda>i. [1, 2, 1, 2] ! (i - 10)) (Var_op [1, 1] 13)
       = Some \<bar>[1, 2, 1, 2] ! (10 + 1 - 10)\<bar>
   \<and> (\<exists>obj cs. graph_implementation
          (\<lambda>as sh d i. Inr ((Var_op sh i, [PrimitiveConstr ''sq'']), Suc i))
          (\<lambda>as sh i. Inr ((Var_op sh i, [PrimitiveConstr ''abs'']), Suc i))
          [Const_op (Some 3) [1, 1]] [1, 1] (Some [Constant 1]) 10
        = Inr ((obj, cs @ [LinEqConstr (Const_op (Some 3) [1, 1])
                             (Sum_op [Var_op [1, 1] 10, Var_op [1, 1] 11])]), 14)
        \<and> eval_op (\<lambda>i. [1, 2, 1, 2] ! (i - 10)) obj = Some 5
        \<and> eval_op (\<lambda>i. [1, 2, 1, 2] ! (i - 10)) (Sum_op [Var_op [1, 1] 10, Var_op [1, 1] 11])
            = eval_op (\<lambda>i. [1, 2, 1, 2] ! (i - 10)) (Const_op (Some 3) [1, 1]))"
  using huber_is_min_over_splits[of 1 3
      "\<lambda>as sh d i. Inr ((Var_op sh i, [PrimitiveConstr ''sq'']), Suc i)" "[1, 1]" 10
      "Var_op [1, 1] 12" "[PrimitiveConstr ''sq'']" 13
      "\<lambda>as sh i. Inr ((Var_op sh i, [PrimitiveConstr ''abs'']), Suc i)"
      "Var_op [1, 1] 13" "[PrimitiveConstr ''abs'']" 14
      "Constant 1" "\<lambda>i. [1, 2, 1, 2] ! (i - 10)" "Const_op (Some 3) [1, 1]" "[]" "[]"]
  by (auto simp: clip_def create_var_def create_eq_def sum_expr_def Constant_def
      split_objective_def power2_eq_square)

text \<open>
  C1 as stated also names \<open>n = -1\<close>, \<open>s = 2\<close> as a minimising split of \<open>x = 3\<close>. That pair
  is not a split of 3; the split of 3 with \<open>n = -1\<close> has \<open>s = 4\<close> and the objective 9, not 5.
\<close>

theorem split_minus_one_counterexample:
  "\<not> split_feasible 3 (- 1) 2 \<and> split_feasible 3 (- 1) 4
   \<and> split_objective 1 (- 1) 4 = 9 \<and> huber_elem 1 3 = Finite 5"
  by (simp add: split_feasible_def split_objective_def huber_elem_def scipy_huber_def power2_eq_square)

text \<open>
  C2. For \<open>m \<ge> 0\<close> the value of \<open>M\<close>, \<open>numeric\<close> returns, for every element \<open>x\<close> of its
  argument, \<open>x\<^sup>2\<close> when \<open>|x| \<le> m\<close> and \<open>2m|x| - m\<^sup>2\<close> when \<open>|x| > m\<close>; the two branches agree at
  \<open>|x| = m\<close>, and the function is continuous everywhere.
\<close>

theorem numeric_piecewise:
  assumes "0 \<le> m" and "expr_value (M self) = Some m"
  shows "numeric self (v0 # vs)
           = Inr (map (\<lambda>x. Finite (if \<bar>x\<bar> \<le> m then x\<^sup>2 else 2 * m * \<bar>x\<bar> - m\<^sup>2)) v0)
         \<and> (\<bar>x\<bar> = m \<longrightarrow> x\<^sup>2 = 2 * m * \<bar>x\<bar> - m\<^sup>2)
         \<and> isCont (\<lambda>x. if \<bar>x\<bar> \<le> m then x\<^sup>2 else 2 * m * \<bar>x\<bar> - m\<^sup>2) x"
proof -
  have "spec_evaluate m = (\<lambda>x. if \<bar>x\<bar> \<le> m then x\<^sup>2 else 2 * m * \<bar>x\<bar> - m\<^sup>2)"
    by (intro ext) (simp add: spec_evaluate_def)
  with numeric_spec[OF assms, of v0 vs] spec_evaluate_isCont[OF assms(1), of x]
    spec_evaluate_knee[of x m]
  show ?thesis by simp
qed

theorem numeric_piecewise_witness:
  "(0::real) \<le> 1 \<and> expr_value (M \<lparr>args = [Constant 3], M = Constant 1, atom_size = 1\<rparr>) = Some 1
   \<and> numeric \<lparr>args = [Constant 3], M = Constant 1, atom_size = 1\<rparr> [[3, 1 / 2, - 1, - 4]]
       = Inr [Finite 5, Finite (1 / 4), Finite 1, Finite 7]"
  using numeric_piecewise[of 1 "\<lparr>args = [Constant 3], M = Constant 1, atom_size = 1\<rparr>"
      "[3, 1 / 2, - 1, - 4]" "[]" 1]
  by (simp add: Constant_def power2_eq_square)

text \<open>
  C3. \<open>graph_implementation\<close> takes two variables \<open>n\<close> and \<open>s\<close> of the given shape from the
  allocator, one after the other (so they differ), before the reductions of the square and
  of the absolute value run. It puts a reference to \<open>M\<close> in the coefficient when \<open>M\<close> is a
  \<open>Parameter\<close>, and the value of \<open>M\<close> as a 1\<times>1 constant otherwise. It returns the objective
  \<open>n2 + 2 * (M * abs_s)\<close> and the constraints of the square, then those of the absolute
  value, then the equality \<open>x = n + s\<close>.
\<close>

theorem graph_implementation_shape:
  assumes "power_gi [fst (create_var shp st)] shp (2, (1 / 2, 1 / 2)) (st + 2) = Inr ((n2, constr_sq), st3)"
    and "abs_gi [fst (create_var shp (st + 1))] shp st3 = Inr ((abs_s, constr_abs), st4)"
  shows "graph_implementation power_gi abs_gi (x # xs) shp (Some (M0 # ds)) st =
           Inr ((sum_expr [n2, mul_expr (create_const (Some 2) [1, 1])
                    (mul_expr (if isinstance_Parameter M0 then create_param M0 [1, 1]
                               else create_const (expr_value M0) [1, 1]) abs_s)],
                 constr_sq @ constr_abs
                   @ [create_eq x (sum_expr [fst (create_var shp st), fst (create_var shp (st + 1))])]),
                st4)
         \<and> create_var shp st = (Var_op shp st, st + 1)
         \<and> create_var shp (st + 1) = (Var_op shp (st + 1), st + 2)
         \<and> Var_op shp st \<noteq> Var_op shp (st + 1)"
  using assms graph_implementation_ok[of power_gi shp st n2 constr_sq st3 abs_gi abs_s constr_abs st4 x xs M0 ds]
  by (simp add: create_var_def create_const_def create_param_def sum_expr_def mul_expr_def
      create_eq_def)

theorem graph_implementation_shape_witness:
  "(\<lambda>as sh d i. Inr ((Var_op sh i, [PrimitiveConstr ''sq'']), Suc i))
       [fst (create_var [2, 1] 10)] [2, 1] (2, (1 / 2, 1 / 2)) (10 + 2)
     = (Inr ((Var_op [2, 1] 12, [PrimitiveConstr ''sq'']), 13) :: string reduced)
   \<and> (\<lambda>as sh i. Inr ((Var_op sh i, [PrimitiveConstr ''abs'']), Suc i))
       [fst (create_var [2, 1] (10 + 1))] [2, 1] 13
     = (Inr ((Var_op [2, 1] 13, [PrimitiveConstr ''abs'']), 14) :: string reduced)
   \<and> graph_implementation
       (\<lambda>as sh d i. Inr ((Var_op sh i, [PrimitiveConstr ''sq'']), Suc i))
       (\<lambda>as sh i. Inr ((Var_op sh i, [PrimitiveConstr ''abs'']), Suc i))
       [Var_op [2, 1] 0] [2, 1] (Some [\<lparr>isinstance_Parameter = True, is_nonneg = True, is_nonpos = False,
          is_constant = True, is_scalar = True, expr_value = None, expr_size = 1\<rparr>]) 10
     = Inr ((Sum_op [Var_op [2, 1] 12,
                     Mul_op (Const_op (Some 2) [1, 1])
                       (Mul_op (Param_op \<lparr>isinstance_Parameter = True, is_nonneg = True, is_nonpos = False,
          is_constant = True, is_scalar = True, expr_value = None, expr_size = 1\<rparr> [1, 1]) (Var_op [2, 1] 13))],
             [PrimitiveConstr ''sq'', PrimitiveConstr ''abs'',
              LinEqConstr (Var_op [2, 1] 0) (Sum_op [Var_op [2, 1] 10, Var_op [2, 1] 11])]),
            14)"
  using graph_implementation_shape[of
      "\<lambda>as sh d i. Inr ((Var_op sh i, [PrimitiveConstr ''sq'']), Suc i)" "[2, 1]" 10
      "Var_op [2, 1] 12" "[PrimitiveConstr ''sq'']" 13
      "\<lambda>as sh i. Inr ((Var_op sh i, [PrimitiveConstr ''abs'']), Suc i)"
      "Var_op [2, 1] 13" "[PrimitiveConstr ''abs'']" 14
      "Var_op [2, 1] 0" "[]"
      "\<lparr>isinstance_Parameter = True, is_nonneg = True, is_nonpos = False,
          is_constant = True, is_scalar = True, expr_value = None, expr_size = 1\<rparr>" "[]"]
  by (simp add: create_var_def create_const_def create_param_def sum_expr_def mul_expr_def
      create_eq_def Constant_def)

text \<open>
  C4. The construction of the atom raises the error of \<open>validate_arguments\<close> (a ValueError
  in the source; the spec's InvalidParameterError), with the message "M must be a
  non-negative scalar constant.", exactly when \<open>M\<close> is not at once nonnegative, constant and
  scalar, and returns the atom otherwise. It raises for \<open>M = -1\<close>, for an \<open>M\<close> that is not
  nonnegative, for an \<open>M\<close> that is not constant and for an \<open>M\<close> that is not scalar; when it
  raises there is no atom.
\<close>

theorem construction_validates_M:
  "huber_init x M_arg =
     (let m = cast_to_const (case M_arg of None \<Rightarrow> Num 1 | Some a \<Rightarrow> a) in
      if is_nonneg m \<and> is_constant m \<and> is_scalar m
      then Inr \<lparr>args = [x], M = m, atom_size = expr_size x\<rparr>
      else Inl (ValueError ''M must be a non-negative scalar constant.''))
   \<and> (\<exists>err. huber_init x M_arg = Inl err)
        = (let m = cast_to_const (case M_arg of None \<Rightarrow> Num 1 | Some a \<Rightarrow> a) in
           \<not> (is_nonneg m \<and> is_constant m \<and> is_scalar m))
   \<and> huber_init x (Some (Num (- 1))) = Inl (ValueError ''M must be a non-negative scalar constant.'')
   \<and> huber_init x (Some (Expr (e\<lparr>is_nonneg := False\<rparr>)))
        = Inl (ValueError ''M must be a non-negative scalar constant.'')
   \<and> huber_init x (Some (Expr (e\<lparr>is_constant := False\<rparr>)))
        = Inl (ValueError ''M must be a non-negative scalar constant.'')
   \<and> huber_init x (Some (Expr (e\<lparr>is_scalar := False\<rparr>)))
        = Inl (ValueError ''M must be a non-negative scalar constant.'')"
  by (simp add: huber_init_eq Constant_def Let_def)

text \<open>
  C5. For \<open>m \<ge> 0\<close> the value of \<open>M\<close>, \<open>_grad\<close> returns one matrix for the one argument. Its
  entry at row \<open>j\<close>, column \<open>k\<close> is \<open>2 sgn(x\<^sub>j) min(|x\<^sub>j|, m)\<close> when \<open>j = k\<close> and zero otherwise;
  on the diagonal that is \<open>2 x\<^sub>j\<close> where \<open>|x\<^sub>j| < m\<close> and \<open>2 m sgn(x\<^sub>j)\<close> where \<open>|x\<^sub>j| > m\<close>. Away from
  the knee \<open>|x\<^sub>j| = m\<close> the entry is the derivative of element \<open>j\<close> of the value of \<open>numeric\<close>
  with respect to element \<open>k\<close> of the argument.
\<close>

theorem grad_is_diagonal:
  assumes "0 \<le> m" and "expr_value (M self) = Some m" and "args self = a0 # as"
  shows "\<exists>D. grad self (v0 # vs) = Inr [D]
           \<and> nrows D = expr_size a0 \<and> ncols D = atom_size self
           \<and> (\<forall>j k. j < length v0 \<and> k < length v0 \<longrightarrow>
                 entry_at D j k = (if j = k then 2 * sgn (v0 ! j) * min \<bar>v0 ! j\<bar> m else 0)
               \<and> (j = k \<and> \<bar>v0 ! j\<bar> < m \<longrightarrow> entry_at D j k = 2 * (v0 ! j))
               \<and> (j = k \<and> m < \<bar>v0 ! j\<bar> \<longrightarrow> entry_at D j k = 2 * m * sgn (v0 ! j))
               \<and> ((j = k \<longrightarrow> \<bar>v0 ! j\<bar> \<noteq> m) \<longrightarrow>
                    (\<forall>y. numeric self (v0[k := y] # vs)
                           = Inr (map (\<lambda>v. Finite (spec_evaluate m v)) (v0[k := y])))
                    \<and> ((\<lambda>y. spec_evaluate m (v0[k := y] ! j)) has_real_derivative entry_at D j k)
                         (at (v0 ! k))))"
proof -
  let ?D = "elemwise_grad_to_diag (map (grad_elem m) v0) (expr_size a0) (atom_size self)"
  have g: "grad self (v0 # vs) = Inr [?D]" using assms(2,3) by (rule grad_eq)
  have dims: "nrows ?D = expr_size a0" "ncols ?D = atom_size self"
    by (simp_all add: elemwise_grad_to_diag_def)
  have ent: "entry_at ?D j k = (if j = k then grad_elem m (v0 ! j) else 0)"
    if "j < length v0" for j k
    using that by (simp add: entry_at_diag)
  have main: "entry_at ?D j k = (if j = k then 2 * sgn (v0 ! j) * min \<bar>v0 ! j\<bar> m else 0)
               \<and> (j = k \<and> \<bar>v0 ! j\<bar> < m \<longrightarrow> entry_at ?D j k = 2 * (v0 ! j))
               \<and> (j = k \<and> m < \<bar>v0 ! j\<bar> \<longrightarrow> entry_at ?D j k = 2 * m * sgn (v0 ! j))
               \<and> ((j = k \<longrightarrow> \<bar>v0 ! j\<bar> \<noteq> m) \<longrightarrow>
                    (\<forall>y. numeric self (v0[k := y] # vs)
                           = Inr (map (\<lambda>v. Finite (spec_evaluate m v)) (v0[k := y])))
                    \<and> ((\<lambda>y. spec_evaluate m (v0[k := y] ! j)) has_real_derivative entry_at ?D j k)
                         (at (v0 ! k)))"
    if jk: "j < length v0 \<and> k < length v0" for j k
  proof -
    from jk have j: "j < length v0" and k: "k < length v0" by simp_all
    have 1: "entry_at ?D j k = (if j = k then 2 * sgn (v0 ! j) * min \<bar>v0 ! j\<bar> m else 0)"
      using ent[OF j, of k] by (simp add: grad_elem_def)
    have 2: "j = k \<and> \<bar>v0 ! j\<bar> < m \<longrightarrow> entry_at ?D j k = 2 * (v0 ! j)"
      using ent[OF j, of k] by (auto simp: grad_elem_inside)
    have 3: "j = k \<and> m < \<bar>v0 ! j\<bar> \<longrightarrow> entry_at ?D j k = 2 * m * sgn (v0 ! j)"
      using ent[OF j, of k] assms(1) by (auto simp: grad_elem_outside)
    have 4: "\<forall>y. numeric self (v0[k := y] # vs)
                           = Inr (map (\<lambda>v. Finite (spec_evaluate m v)) (v0[k := y]))"
      using numeric_spec[OF assms(1,2)] by simp
    have 5: "((\<lambda>y. spec_evaluate m (v0[k := y] ! j)) has_real_derivative entry_at ?D j k)
                         (at (v0 ! k))"
      if knee: "j = k \<longrightarrow> \<bar>v0 ! j\<bar> \<noteq> m"
    proof (cases "j = k")
      case True
      with knee have "\<bar>v0 ! k\<bar> \<noteq> m" by simp
      from spec_evaluate_deriv[OF assms(1) this]
      have "(spec_evaluate m has_real_derivative grad_elem m (v0 ! k)) (at (v0 ! k))" .
      moreover have "(\<lambda>y. spec_evaluate m (v0[k := y] ! j)) = spec_evaluate m"
        using True k by (intro ext) simp
      ultimately show ?thesis using True ent[OF j, of k] by simp
    next
      case False
      then have "(\<lambda>y. spec_evaluate m (v0[k := y] ! j)) = (\<lambda>y. spec_evaluate m (v0 ! j))"
        by (intro ext) simp
      with False ent[OF j, of k] show ?thesis by simp
    qed
    from 1 2 3 4 5 show ?thesis by blast
  qed
  from g dims main show ?thesis by (intro exI[of _ ?D]) blast
qed

theorem grad_is_diagonal_witness:
  "(0::real) \<le> 1
   \<and> expr_value (M \<lparr>args = [\<lparr>isinstance_Parameter = False, is_nonneg = False, is_nonpos = False,
          is_constant = False, is_scalar = False, expr_value = None, expr_size = 3\<rparr>],
        M = Constant 1, atom_size = 3\<rparr>) = Some 1
   \<and> grad \<lparr>args = [\<lparr>isinstance_Parameter = False, is_nonneg = False, is_nonpos = False,
          is_constant = False, is_scalar = False, expr_value = None, expr_size = 3\<rparr>],
        M = Constant 1, atom_size = 3\<rparr> [[3, 1 / 2, - 4]]
       = Inr [\<lparr>nrows = 3, ncols = 3, entries = [(0, 0, 2), (1, 1, 1), (2, 2, - 2)]\<rparr>]"
  using grad_is_diagonal[of 1
      "\<lparr>args = [\<lparr>isinstance_Parameter = False, is_nonneg = False, is_nonpos = False,
          is_constant = False, is_scalar = False, expr_value = None, expr_size = 3\<rparr>],
        M = Constant 1, atom_size = 3\<rparr>"
      "\<lparr>isinstance_Parameter = False, is_nonneg = False, is_nonpos = False,
          is_constant = False, is_scalar = False, expr_value = None, expr_size = 3\<rparr>"
      "[]" "[3, 1 / 2, - 4]" "[]"]
  by (simp add: grad_def Constant_def elemwise_grad_to_diag_def grad_elem_def upt_rec)

text \<open>
  C6. For an index \<open>i\<close> of an argument, \<open>is_incr\<close> returns whether that argument is declared
  nonnegative and \<open>is_decr\<close> whether it is declared nonpositive; both return false when the
  argument is declared neither. For a constructed atom the argument of index 0 is \<open>x\<close>.
\<close>

theorem monotonicity_from_declared_sign:
  assumes "0 \<le> i" and "i < int (length (args self))"
  shows "is_incr self i = Inr (is_nonneg (args self ! nat i))
         \<and> is_decr self i = Inr (is_nonpos (args self ! nat i))
         \<and> (\<not> is_nonneg (args self ! nat i) \<and> \<not> is_nonpos (args self ! nat i)
              \<longrightarrow> is_incr self i = Inr False \<and> is_decr self i = Inr False)
         \<and> (huber_init x M_arg = Inr self
              \<longrightarrow> is_incr self 0 = Inr (is_nonneg x) \<and> is_decr self 0 = Inr (is_nonpos x))"
proof -
  have "py_index (args self) i = Inr (args self ! nat i)"
    using assms by (rule py_index_in_range)
  then have 1: "is_incr self i = Inr (is_nonneg (args self ! nat i))"
    and 2: "is_decr self i = Inr (is_nonpos (args self ! nat i))"
    by (simp_all add: is_incr_def is_decr_def)
  have 3: "is_incr self 0 = Inr (is_nonneg x) \<and> is_decr self 0 = Inr (is_nonpos x)"
    if "huber_init x M_arg = Inr self"
  proof -
    from that have "args self = [x]"
      by (auto simp: huber_init_eq Let_def split: if_splits)
    then show ?thesis by (simp add: is_incr_def is_decr_def py_index_def)
  qed
  from 1 2 3 show ?thesis by simp
qed

theorem monotonicity_from_declared_sign_witness:
  "(0::int) \<le> 0 \<and> 0 < int (length (args \<lparr>args = [Constant 3], M = Constant 1, atom_size = 1\<rparr>))
   \<and> is_incr \<lparr>args = [Constant 3], M = Constant 1, atom_size = 1\<rparr> 0 = Inr True
   \<and> is_decr \<lparr>args = [Constant 3], M = Constant 1, atom_size = 1\<rparr> 0 = Inr False
   \<and> huber_init (Constant 3) None = Inr \<lparr>args = [Constant 3], M = Constant 1, atom_size = 1\<rparr>"
  using monotonicity_from_declared_sign[of 0 "\<lparr>args = [Constant 3], M = Constant 1, atom_size = 1\<rparr>"
     "Constant 3" None]
  by (simp add: Constant_def huber_init_eq)

text \<open>
  C7. \<open>is_atom_convex\<close> is true and \<open>is_atom_concave\<close> is false for every instance, and the
  declaration is sound: for every \<open>m \<ge> 0\<close> the value of the atom is a convex function of its
  argument.
\<close>

theorem atom_convex_sound:
  assumes "0 \<le> m" and "0 \<le> t" and "t \<le> 1"
  shows "is_atom_convex self \<and> \<not> is_atom_concave self
         \<and> (\<exists>r rx ry. huber_elem m (t * x + (1 - t) * y) = Finite r
               \<and> huber_elem m x = Finite rx \<and> huber_elem m y = Finite ry
               \<and> r \<le> t * rx + (1 - t) * ry)"
  using assms spec_evaluate_convex[OF assms, of x y]
  by (simp add: is_atom_convex_def is_atom_concave_def huber_elem_spec)

theorem atom_convex_sound_witness:
  "(0::real) \<le> 1 \<and> (0::real) \<le> 1 / 2 \<and> (1::real) / 2 \<le> 1
   \<and> is_atom_convex \<lparr>args = [Constant 3], M = Constant 1, atom_size = 1\<rparr>
   \<and> \<not> is_atom_concave \<lparr>args = [Constant 3], M = Constant 1, atom_size = 1\<rparr>
   \<and> (\<exists>r rx ry. huber_elem 1 (1 / 2 * 3 + (1 - 1 / 2) * (- 1)) = Finite r
               \<and> huber_elem 1 3 = Finite rx \<and> huber_elem 1 (- 1) = Finite ry
               \<and> r \<le> 1 / 2 * rx + (1 - 1 / 2) * ry)"
  using atom_convex_sound[of 1 "1 / 2" "\<lparr>args = [Constant 3], M = Constant 1, atom_size = 1\<rparr>" 3 "- 1"]
  by simp

text \<open>
  C8. \<open>sign_from_args\<close> is \<open>(True, False)\<close> for every instance, and the declaration is sound:
  for every \<open>m \<ge> 0\<close> every element that \<open>numeric\<close> returns is finite and nonnegative.
\<close>

theorem sign_nonneg_sound:
  "sign_from_args self = (True, False)
   \<and> (0 \<le> m \<longrightarrow> (\<exists>r. huber_elem m x = Finite r \<and> 0 \<le> r))
   \<and> (0 \<le> m \<and> expr_value (M self) = Some m \<longrightarrow>
        (\<exists>ys. numeric self (v0 # vs) = Inr (map Finite ys) \<and> length ys = length v0
              \<and> (\<forall>y \<in> set ys. 0 \<le> y)))"
proof -
  have 1: "\<exists>ys. numeric self (v0 # vs) = Inr (map Finite ys) \<and> length ys = length v0
                  \<and> (\<forall>y \<in> set ys. 0 \<le> y)"
    if h: "0 \<le> m \<and> expr_value (M self) = Some m"
  proof -
    let ?ys = "map (spec_evaluate m) v0"
    from h have m: "0 \<le> m" and v: "expr_value (M self) = Some m" by simp_all
    have "numeric self (v0 # vs) = Inr (map Finite ?ys)"
      using numeric_spec[OF m v, of v0 vs] by (simp add: comp_def)
    moreover have "\<forall>y \<in> set ?ys. 0 \<le> y" using m by (auto simp: spec_evaluate_nonneg)
    ultimately show ?thesis by (intro exI[of _ ?ys]) simp
  qed
  have 2: "\<exists>r. huber_elem m x = Finite r \<and> 0 \<le> r" if "0 \<le> m"
    using that by (simp add: huber_elem_spec spec_evaluate_nonneg)
  have 3: "sign_from_args self = (True, False)" by (simp add: sign_from_args_def)
  from 1 2 3 show ?thesis by blast
qed

theorem sign_nonneg_sound_witness:
  "(0::real) \<le> 1 \<and> expr_value (M \<lparr>args = [Constant (- 3)], M = Constant 1, atom_size = 1\<rparr>) = Some 1
   \<and> sign_from_args \<lparr>args = [Constant (- 3)], M = Constant 1, atom_size = 1\<rparr> = (True, False)
   \<and> (\<exists>r. huber_elem 1 (- 3) = Finite r \<and> 0 \<le> r)
   \<and> numeric \<lparr>args = [Constant (- 3)], M = Constant 1, atom_size = 1\<rparr> [[- 3, 1 / 2]]
       = Inr [Finite 5, Finite (1 / 4)]"
  using sign_nonneg_sound[of "\<lparr>args = [Constant (- 3)], M = Constant 1, atom_size = 1\<rparr>" 1 "- 3"
      "[- 3, 1 / 2]" "[]"]
  by (auto simp: Constant_def numeric_def huber_elem_def scipy_huber_def power2_eq_square)

text \<open>
  C9 (as amended). \<open>M = 0\<close> is accepted: the construction returns the atom, whose \<open>M\<close> is the
  constant 0 and passes \<open>validate_arguments\<close>. The reduction of that atom has the same form
  as for any constant, with the coefficient 0: where the node of the square has the value
  \<open>a\<close> and the node of the absolute value has a value, the objective has the value \<open>a + 0\<close>.
  \<open>numeric\<close> follows the two-branch formula at \<open>m = 0\<close>, which is the zero function: every
  element of its result is 0, the minimum of \<open>n\<^sup>2 + 0\<close> over the splits \<open>s + n = v\<close>, attained at
  \<open>n = 0\<close>, \<open>s = v\<close>.
\<close>

theorem M_zero_is_no_error:
  assumes "power_gi [fst (create_var shp st)] shp (2, (1 / 2, 1 / 2)) (st + 2) = Inr ((n2, constr_sq), st3)"
    and "abs_gi [fst (create_var shp (st + 1))] shp st3 = Inr ((abs_s, constr_abs), st4)"
    and "eval_op \<sigma> n2 = Some a" and "eval_op \<sigma> abs_s = Some b"
  shows "\<exists>self obj. huber_init x (Some (Num 0)) = Inr self \<and> M self = Constant 0
           \<and> validate_arguments self = Inr ()
           \<and> graph_implementation power_gi abs_gi (xo # xs) shp (Some (get_data self)) st
               = Inr ((obj, constr_sq @ constr_abs
                        @ [create_eq xo (sum_expr [fst (create_var shp st), fst (create_var shp (st + 1))])]),
                      st4)
           \<and> obj = sum_expr [n2, mul_expr (create_const (Some 2) [1, 1])
                                   (mul_expr (create_const (Some 0) [1, 1]) abs_s)]
           \<and> eval_op \<sigma> obj = Some (a + 0)
           \<and> split_objective 0 n s = n\<^sup>2 + 0
           \<and> numeric self (v0 # vs)
               = Inr (map (\<lambda>v. Finite (if \<bar>v\<bar> \<le> 0 then v\<^sup>2 else 2 * 0 * \<bar>v\<bar> - 0\<^sup>2)) v0)
           \<and> numeric self (v0 # vs) = Inr (map (\<lambda>v. Finite 0) v0)
           \<and> huber_elem 0 v = Finite 0
           \<and> split_feasible v 0 v \<and> split_objective 0 0 v = 0 \<and> 0 \<le> split_objective 0 n s"
proof -
  let ?self = "\<lparr>args = [x], M = Constant 0, atom_size = expr_size x\<rparr>"
  let ?obj = "sum_expr [n2, mul_expr (create_const (Some 2) [1, 1])
                                   (mul_expr (create_const (Some 0) [1, 1]) abs_s)]"
  have 1: "huber_init x (Some (Num 0)) = Inr ?self" by (simp add: huber_init_Num)
  have 2: "validate_arguments ?self = Inr ()" by (simp add: validate_arguments_def Constant_def)
  have 3: "graph_implementation power_gi abs_gi (xo # xs) shp (Some (get_data ?self)) st
               = Inr ((?obj, constr_sq @ constr_abs
                        @ [create_eq xo (sum_expr [fst (create_var shp st), fst (create_var shp (st + 1))])]),
                      st4)"
    using assms(1,2)
      graph_implementation_ok[of power_gi shp st n2 constr_sq st3 abs_gi abs_s constr_abs st4 xo xs
        "Constant 0" "[]"]
    by (simp add: get_data_def create_var_def create_const_def sum_expr_def mul_expr_def
        create_eq_def Constant_def)
  have 4: "eval_op \<sigma> ?obj = Some (a + 0)"
    using assms(3,4) by (simp add: sum_expr_def mul_expr_def create_const_def)
  have 5: "split_objective 0 n s = n\<^sup>2 + 0" by (simp add: split_objective_def)
  have "numeric ?self (v0 # vs) = Inr (map (\<lambda>v. Finite (spec_evaluate 0 v)) v0)"
    by (rule numeric_spec) (simp_all add: Constant_def)
  then have 6: "numeric ?self (v0 # vs)
               = Inr (map (\<lambda>v. Finite (if \<bar>v\<bar> \<le> 0 then v\<^sup>2 else 2 * 0 * \<bar>v\<bar> - 0\<^sup>2)) v0)"
    by (simp add: spec_evaluate_def)
  have 7: "M ?self = Constant 0" by simp
  have 8: "numeric ?self (v0 # vs) = Inr (map (\<lambda>v. Finite 0) v0)"
    by (simp add: numeric_def Constant_def huber_elem_zero)
  have 9: "huber_elem 0 v = Finite 0" by (rule huber_elem_zero)
  have 10: "split_feasible v 0 v" "split_objective 0 0 v = 0" "0 \<le> split_objective 0 n s"
    by (simp_all add: split_feasible_def split_objective_def)
  from 1 2 3 4 5 6 7 8 9 10 show ?thesis by blast
qed

theorem M_zero_is_no_error_witness:
  "(\<lambda>as sh d i. Inr ((Var_op sh i, [PrimitiveConstr ''sq'']), Suc i))
       [fst (create_var [1, 1] 10)] [1, 1] (2, (1 / 2, 1 / 2)) (10 + 2)
     = (Inr ((Var_op [1, 1] 12, [PrimitiveConstr ''sq'']), 13) :: string reduced)
   \<and> (\<lambda>as sh i. Inr ((Var_op sh i, [PrimitiveConstr ''abs'']), Suc i))
       [fst (create_var [1, 1] (10 + 1))] [1, 1] 13
     = (Inr ((Var_op [1, 1] 13, [PrimitiveConstr ''abs'']), 14) :: string reduced)
   \<and> eval_op real (Var_op [1, 1] 12) = Some 12 \<and> eval_op real (Var_op [1, 1] 13) = Some 13
   \<and> huber_init (Constant 3) (Some (Num 0))
       = Inr \<lparr>args = [Constant 3], M = Constant 0, atom_size = 1\<rparr>
   \<and> graph_implementation
       (\<lambda>as sh d i. Inr ((Var_op sh i, [PrimitiveConstr ''sq'']), Suc i))
       (\<lambda>as sh i. Inr ((Var_op sh i, [PrimitiveConstr ''abs'']), Suc i))
       [Var_op [1, 1] 0] [1, 1] (Some (get_data \<lparr>args = [Constant 3], M = Constant 0, atom_size = 1\<rparr>)) 10
     = Inr ((Sum_op [Var_op [1, 1] 12,
                     Mul_op (Const_op (Some 2) [1, 1])
                       (Mul_op (Const_op (Some 0) [1, 1]) (Var_op [1, 1] 13))],
             [PrimitiveConstr ''sq'', PrimitiveConstr ''abs'',
              LinEqConstr (Var_op [1, 1] 0) (Sum_op [Var_op [1, 1] 10, Var_op [1, 1] 11])]),
            14)
   \<and> eval_op real (Sum_op [Var_op [1, 1] 12,
                     Mul_op (Const_op (Some 2) [1, 1])
                       (Mul_op (Const_op (Some 0) [1, 1]) (Var_op [1, 1] 13))]) = Some 12"
  using M_zero_is_no_error[of
      "\<lambda>as sh d i. Inr ((Var_op sh i, [PrimitiveConstr ''sq'']), Suc i)" "[1, 1]" 10
      "Var_op [1, 1] 12" "[PrimitiveConstr ''sq'']" 13
      "\<lambda>as sh i. Inr ((Var_op sh i, [PrimitiveConstr ''abs'']), Suc i)"
      "Var_op [1, 1] 13" "[PrimitiveConstr ''abs'']" 14
      real 12 13 "Constant 3" "Var_op [1, 1] 0" "[]"]
  by (simp add: create_var_def create_const_def create_param_def sum_expr_def mul_expr_def
      create_eq_def Constant_def huber_init_eq get_data_def graph_implementation_def)

text \<open>
  C9 as stated calls the behaviour at \<open>M = 0\<close> pure least squares. The atom built with
  \<open>M = 0\<close> has the value 0 at \<open>x = 3\<close>, not \<open>3\<^sup>2\<close>: the split \<open>n = 0\<close>, \<open>s = 3\<close> costs nothing.
\<close>

theorem M_zero_not_least_squares_counterexample:
  "numeric \<lparr>args = [Constant 3], M = Constant 0, atom_size = 1\<rparr> [[3]] = Inr [Finite 0]
   \<and> numeric \<lparr>args = [Constant 3], M = Constant 0, atom_size = 1\<rparr> [[3]] \<noteq> Inr [Finite (3\<^sup>2)]
   \<and> split_feasible 3 0 3 \<and> split_objective 0 0 3 = 0 \<and> split_objective 0 0 3 \<noteq> 3\<^sup>2"
  by (simp add: numeric_def Constant_def huber_elem_zero split_feasible_def split_objective_def)

text \<open>
  C10. Without a second argument the constructor takes \<open>M = 1\<close>. A number given for \<open>M\<close> is
  cast to a constant expression when the atom is built, so that \<open>validate_arguments\<close>,
  \<open>get_data\<close>, \<open>numeric\<close> and (through \<open>get_data\<close>) \<open>graph_implementation\<close> read an expression.
\<close>

theorem M_default_and_cast:
  assumes "power_gi [fst (create_var shp st)] shp (2, (1 / 2, 1 / 2)) (st + 2) = Inr ((n2, constr_sq), st3)"
    and "abs_gi [fst (create_var shp (st + 1))] shp st3 = Inr ((abs_s, constr_abs), st4)"
  shows "huber_init x None = huber_init x (Some (Num 1))
         \<and> huber_init x None = Inr \<lparr>args = [x], M = Constant 1, atom_size = expr_size x\<rparr>
         \<and> huber_init x (Some (Num v))
             = (if 0 \<le> v then Inr \<lparr>args = [x], M = cast_to_const (Num v), atom_size = expr_size x\<rparr>
                else Inl (ValueError ''M must be a non-negative scalar constant.''))
         \<and> cast_to_const (Num v) = Constant v \<and> cast_to_const (Expr e) = e
         \<and> get_data \<lparr>args = [x], M = Constant v, atom_size = expr_size x\<rparr> = [Constant v]
         \<and> validate_arguments \<lparr>args = [x], M = Constant v, atom_size = expr_size x\<rparr>
             = (if 0 \<le> v then Inr ()
                else Inl (ValueError ''M must be a non-negative scalar constant.''))
         \<and> numeric \<lparr>args = [x], M = Constant v, atom_size = expr_size x\<rparr> (v0 # vs)
             = Inr (map (huber_elem v) v0)
         \<and> graph_implementation power_gi abs_gi (xo # xs) shp
               (Some (get_data \<lparr>args = [x], M = Constant v, atom_size = expr_size x\<rparr>)) st
             = Inr ((sum_expr [n2, mul_expr (create_const (Some 2) [1, 1])
                                 (mul_expr (create_const (Some v) [1, 1]) abs_s)],
                     constr_sq @ constr_abs
                       @ [create_eq xo (sum_expr [fst (create_var shp st), fst (create_var shp (st + 1))])]),
                    st4)"
proof -
  have 1: "huber_init x None = huber_init x (Some (Num 1))" by (simp add: huber_init_def)
  have 2: "huber_init x None = Inr \<lparr>args = [x], M = Constant 1, atom_size = expr_size x\<rparr>"
    by (simp add: huber_init_eq Constant_def)
  have 3: "huber_init x (Some (Num v))
             = (if 0 \<le> v then Inr \<lparr>args = [x], M = cast_to_const (Num v), atom_size = expr_size x\<rparr>
                else Inl (ValueError ''M must be a non-negative scalar constant.''))"
    by (simp add: huber_init_Num)
  have 4: "get_data \<lparr>args = [x], M = Constant v, atom_size = expr_size x\<rparr> = [Constant v]"
    by (simp add: get_data_def)
  have 5: "validate_arguments \<lparr>args = [x], M = Constant v, atom_size = expr_size x\<rparr>
             = (if 0 \<le> v then Inr ()
                else Inl (ValueError ''M must be a non-negative scalar constant.''))"
    by (simp add: validate_arguments_def Constant_def)
  have 6: "numeric \<lparr>args = [x], M = Constant v, atom_size = expr_size x\<rparr> (v0 # vs)
             = Inr (map (huber_elem v) v0)"
    by (simp add: numeric_def Constant_def)
  have 7: "graph_implementation power_gi abs_gi (xo # xs) shp
               (Some (get_data \<lparr>args = [x], M = Constant v, atom_size = expr_size x\<rparr>)) st
             = Inr ((sum_expr [n2, mul_expr (create_const (Some 2) [1, 1])
                                 (mul_expr (create_const (Some v) [1, 1]) abs_s)],
                     constr_sq @ constr_abs
                       @ [create_eq xo (sum_expr [fst (create_var shp st), fst (create_var shp (st + 1))])]),
                    st4)"
    using assms
      graph_implementation_ok[of power_gi shp st n2 constr_sq st3 abs_gi abs_s constr_abs st4 xo xs
        "Constant v" "[]"]
    by (simp add: get_data_def create_var_def create_const_def sum_expr_def mul_expr_def
        create_eq_def Constant_def)
  from 1 2 3 4 5 6 7 show ?thesis by simp
qed

theorem M_default_and_cast_witness:
  "(\<lambda>as sh d i. Inr ((Var_op sh i, [PrimitiveConstr ''sq'']), Suc i))
       [fst (create_var [1, 1] 5)] [1, 1] (2, (1 / 2, 1 / 2)) (5 + 2)
     = (Inr ((Var_op [1, 1] 7, [PrimitiveConstr ''sq'']), 8) :: string reduced)
   \<and> (\<lambda>as sh i. Inr ((Var_op sh i, [PrimitiveConstr ''abs'']), Suc i))
       [fst (create_var [1, 1] (5 + 1))] [1, 1] 8
     = (Inr ((Var_op [1, 1] 8, [PrimitiveConstr ''abs'']), 9) :: string reduced)
   \<and> huber_init (Constant 3) None
       = Inr \<lparr>args = [Constant 3], M = Constant 1, atom_size = 1\<rparr>
   \<and> huber_init (Constant 3) (Some (Num (5 / 2)))
       = Inr \<lparr>args = [Constant 3], M = Constant (5 / 2), atom_size = 1\<rparr>
   \<and> graph_implementation
       (\<lambda>as sh d i. Inr ((Var_op sh i, [PrimitiveConstr ''sq'']), Suc i))
       (\<lambda>as sh i. Inr ((Var_op sh i, [PrimitiveConstr ''abs'']), Suc i))
       [Var_op [1, 1] 0] [1, 1]
       (Some (get_data \<lparr>args = [Constant 3], M = Constant (5 / 2), atom_size = 1\<rparr>)) 5
     = Inr ((Sum_op [Var_op [1, 1] 7,
                     Mul_op (Const_op (Some 2) [1, 1])
                       (Mul_op (Const_op (Some (5 / 2)) [1, 1]) (Var_op [1, 1] 8))],
             [PrimitiveConstr ''sq'', PrimitiveConstr ''abs'',
              LinEqConstr (Var_op [1, 1] 0) (Sum_op [Var_op [1, 1] 5, Var_op [1, 1] 6])]),
            9)"
  using M_default_and_cast[of
      "\<lambda>as sh d i. Inr ((Var_op sh i, [PrimitiveConstr ''sq'']), Suc i)" "[1, 1]" 5
      "Var_op [1, 1] 7" "[PrimitiveConstr ''sq'']" 8
      "\<lambda>as sh i. Inr ((Var_op sh i, [PrimitiveConstr ''abs'']), Suc i)"
      "Var_op [1, 1] 8" "[PrimitiveConstr ''abs'']" 9
      "Constant 3" "5 / 2"]
  by (simp add: create_var_def create_const_def create_param_def sum_expr_def mul_expr_def
      create_eq_def Constant_def huber_init_eq get_data_def graph_implementation_def)

end
